theory Spec2Isabelle
  imports Main
begin

section \<open>The router-store connecting module\<close>

text \<open>
  A shallow embedding of \<^verbatim>\<open>modules/router-store/src/router_store_module.ts\<close>.
  The module keeps five private fields and talks to three collaborators: the router
  (\<^verbatim>\<open>router.url\<close>, \<^verbatim>\<open>router.navigateByUrl\<close>, the event stream and the
  \<^verbatim>\<open>beforePreactivation\<close> hook), the store (\<^verbatim>\<open>subscribe\<close>, \<^verbatim>\<open>dispatch\<close>) and
  the serializer. The module's methods are state transformers on one record; calls into
  a collaborator are written to a log, and a JavaScript exception is a value returned
  next to the state, since the fields assigned before a throw stay assigned.
\<close>

subsection \<open>Data\<close>

text \<open>A router state snapshot: its URL and the rest of the tree, which the module never inspects.\<close>

record 't RouterStateSnapshot =
  url :: string
  root :: 't

text \<open>The router events the module tells apart with \<^verbatim>\<open>instanceof\<close>.\<close>

record 't RoutesRecognized =
  rr_id :: int
  rr_url :: string
  rr_urlAfterRedirects :: string
  rr_state :: "'t RouterStateSnapshot"

record NavigationCancel =
  nc_id :: int
  nc_url :: string
  nc_reason :: string

record NavigationError =
  ne_id :: int
  ne_url :: string
  ne_error :: string

datatype 't event =
    EvRoutesRecognized "'t RoutesRecognized"
  | EvNavigationCancel NavigationCancel
  | EvNavigationError NavigationError
  | EvOther int string

text \<open>
  \<^verbatim>\<open>RouterReducerState\<close>. The \<^verbatim>\<open>state\<close> field is optional here because the reducer
  copies \<^verbatim>\<open>payload.routerState\<close>, which is the module's \<^verbatim>\<open>routerState\<close> field and is
  \<^verbatim>\<open>undefined\<close> until the first pre-activation.
\<close>

record 't RouterReducerState =
  state :: "'t RouterStateSnapshot option"
  navigationId :: int

text \<open>
  The store's state: whatever the host application keeps (\<open>app\<close>), and the value under
  the key \<^verbatim>\<open>'routerReducer'\<close>; \<open>None\<close> stands for a missing or falsy value there.
\<close>

record ('t, 'a) StoreState =
  routerReducer_slot :: "'t RouterReducerState option"
  app :: 'a

text \<open>The three payload shapes, and the action object \<^verbatim>\<open>{ type, payload }\<close>.\<close>

datatype ('t, 'a) payload =
    RouterNavigationPayload "'t RouterStateSnapshot" "'t RoutesRecognized"
  | RouterCancelPayload "'t RouterStateSnapshot option" "('t, 'a) StoreState option" NavigationCancel
  | RouterErrorPayload "'t RouterStateSnapshot option" "('t, 'a) StoreState option" NavigationError

record ('t, 'a) action =
  type :: string
  payload :: "('t, 'a) payload"

fun payload_routerState :: "('t, 'a) payload \<Rightarrow> 't RouterStateSnapshot option" where
  "payload_routerState (RouterNavigationPayload rs ev) = Some rs"
| "payload_routerState (RouterCancelPayload rs st ev) = rs"
| "payload_routerState (RouterErrorPayload rs st ev) = rs"

fun payload_event_id :: "('t, 'a) payload \<Rightarrow> int" where
  "payload_event_id (RouterNavigationPayload rs ev) = rr_id ev"
| "payload_event_id (RouterCancelPayload rs st ev) = nc_id ev"
| "payload_event_id (RouterErrorPayload rs st ev) = ne_id ev"

fun payload_storeState :: "('t, 'a) payload \<Rightarrow> ('t, 'a) StoreState option" where
  "payload_storeState (RouterNavigationPayload rs ev) = None"
| "payload_storeState (RouterCancelPayload rs st ev) = st"
| "payload_storeState (RouterErrorPayload rs st ev) = st"

subsection \<open>Action types and the reducer\<close>

definition ROUTER_NAVIGATION :: string where
  "ROUTER_NAVIGATION = ''ROUTER_NAVIGATION''"

definition ROUTER_CANCEL :: string where
  "ROUTER_CANCEL = ''ROUTER_CANCEL''"

definition ROUTER_ERROR :: string where
  "ROUTER_ERROR = ''ROUTE_ERROR''"

definition routerReducer ::
  "'t RouterReducerState option \<Rightarrow> ('t, 'a) action \<Rightarrow> 't RouterReducerState option" where
  "routerReducer st a =
     (if type a = ROUTER_NAVIGATION \<or> type a = ROUTER_ERROR \<or> type a = ROUTER_CANCEL
      then Some \<lparr>state = payload_routerState (payload a),
                 navigationId = payload_event_id (payload a)\<rparr>
      else st)"

subsection \<open>Exceptions, effects and collaborators\<close>

text \<open>
  The first two are the \<^verbatim>\<open>TypeError\<close> of reading a property of \<^verbatim>\<open>undefined\<close>, named
  after the field that was undefined; the third is whatever the store throws out of
  \<^verbatim>\<open>dispatch\<close>.
\<close>

datatype error =
    UndefinedStoreState
  | UndefinedLastRoutesRecognized
  | StoreThrows

datatype ('t, 'a) effect =
    Dispatched "('t, 'a) action"
  | NavigateByUrl string bool
  | Threw error

text \<open>
  How a call of \<^verbatim>\<open>store.dispatch\<close> may end: normally, by throwing before the new state
  reaches the module's subscriber (a reducer throws), or by throwing after it did (a
  later subscriber throws).
\<close>

datatype fault = NoFault | ThrowsBeforeEmission | ThrowsAfterEmission

text \<open>
  The collaborators' behaviour, a parameter of the model: the injected serializer, the
  store's root reducer, and the store's fault on a given dispatch.
\<close>

record ('t, 'a) collaborators =
  serialize :: "'t RouterStateSnapshot \<Rightarrow> 't RouterStateSnapshot"
  reducer :: "('t, 'a) StoreState \<Rightarrow> ('t, 'a) action \<Rightarrow> ('t, 'a) StoreState"
  fault :: "('t, 'a) StoreState \<Rightarrow> ('t, 'a) action \<Rightarrow> fault"

text \<open>
  The module's five fields, then the router's current URL, the store's current state
  and the log of calls made into the collaborators.
\<close>

record ('t, 'a) system =
  routerState :: "'t RouterStateSnapshot option"
  storeState :: "('t, 'a) StoreState option"
  lastRoutesRecognized :: "'t RoutesRecognized option"
  dispatchTriggeredByRouter :: bool
  navigationTriggeredByDispatch :: bool
  router_url :: string
  store_value :: "('t, 'a) StoreState"
  effects :: "('t, 'a) effect list"

type_synonym ('t, 'a) outcome = "error option \<times> ('t, 'a) system"

subsection \<open>The module's methods\<close>

text \<open>
  \<^verbatim>\<open>router.navigateByUrl(u)\<close>: a request to the router. The router may run the
  navigation, and with it the pre-activation hook, before the call returns, so the log
  keeps next to the URL the value that \<^verbatim>\<open>navigationTriggeredByDispatch\<close> has when the
  router receives the call.
\<close>

definition navigateByUrl :: "string \<Rightarrow> ('t, 'a) system \<Rightarrow> ('t, 'a) system" where
  "navigateByUrl u w =
     w\<lparr>effects := effects w @ [NavigateByUrl u (navigationTriggeredByDispatch w)]\<rparr>"

definition shouldDispatchRouterNavigation :: "('t, 'a) system \<Rightarrow> error + bool" where
  "shouldDispatchRouterNavigation w =
     (case storeState w of
        None \<Rightarrow> Inl UndefinedStoreState
      | Some s \<Rightarrow>
          (case routerReducer_slot s of
             None \<Rightarrow> Inr True
           | Some r \<Rightarrow> Inr (\<not> navigationTriggeredByDispatch w)))"

definition navigateIfNeeded :: "('t, 'a) system \<Rightarrow> ('t, 'a) outcome" where
  "navigateIfNeeded w =
     (case storeState w of
        None \<Rightarrow> (Some UndefinedStoreState, w)
      | Some s \<Rightarrow>
          (case routerReducer_slot s of
             None \<Rightarrow> (None, w)
           | Some r \<Rightarrow>
               (case state r of
                  None \<Rightarrow> (None, w)
                | Some st \<Rightarrow>
                    if dispatchTriggeredByRouter w then (None, w)
                    else if router_url w \<noteq> url st
                    then (None, navigateByUrl (url st) (w\<lparr>navigationTriggeredByDispatch := True\<rparr>))
                    else (None, w))))"

text \<open>The callback given to \<^verbatim>\<open>store.subscribe\<close>.\<close>

definition storeStateListener :: "('t, 'a) StoreState \<Rightarrow> ('t, 'a) system \<Rightarrow> ('t, 'a) outcome" where
  "storeStateListener s w = navigateIfNeeded (w\<lparr>storeState := Some s\<rparr>)"

text \<open>
  \<^verbatim>\<open>store.dispatch(a)\<close>: the call is logged, the store reduces its state and hands the
  new state to the module's subscriber before \<^verbatim>\<open>dispatch\<close> returns.
\<close>

definition store_dispatch ::
  "('t, 'a) collaborators \<Rightarrow> ('t, 'a) action \<Rightarrow> ('t, 'a) system \<Rightarrow> ('t, 'a) outcome" where
  "store_dispatch env a w =
     (let w1 = w\<lparr>effects := effects w @ [Dispatched a]\<rparr> in
      case fault env (store_value w) a of
        ThrowsBeforeEmission \<Rightarrow> (Some StoreThrows, w1)
      | f \<Rightarrow>
          (let s' = reducer env (store_value w) a;
               (r, w2) = storeStateListener s' (w1\<lparr>store_value := s'\<rparr>)
           in case r of
                Some e \<Rightarrow> (Some e, w2)
              | None \<Rightarrow> (if f = ThrowsAfterEmission then Some StoreThrows else None, w2)))"

text \<open>The \<^verbatim>\<open>try\<close> block is the call of the store, the \<^verbatim>\<open>finally\<close> block runs on both exits.\<close>

definition dispatchRouterAction ::
  "('t, 'a) collaborators \<Rightarrow> string \<Rightarrow> ('t, 'a) payload \<Rightarrow> ('t, 'a) system \<Rightarrow> ('t, 'a) outcome" where
  "dispatchRouterAction env ty p w =
     (let (r, w1) = store_dispatch env \<lparr>type = ty, payload = p\<rparr>
                      (w\<lparr>dispatchTriggeredByRouter := True\<rparr>)
      in (r, w1\<lparr>dispatchTriggeredByRouter := False, navigationTriggeredByDispatch := False\<rparr>))"

text \<open>
  The payload is built before the call: \<^verbatim>\<open>this.lastRoutesRecognized.id\<close> throws when
  no \<^verbatim>\<open>RoutesRecognized\<close> event was seen. The serializer is then given the
  \<^verbatim>\<open>routerState\<close> field. The hook, the only caller, assigns that field first; with the
  field still undefined the serializer would be handed \<^verbatim>\<open>undefined\<close>, outside its
  declared domain, and the model returns the state unchanged in that branch, which
  \<open>beforePreactivation\<close> never takes.
\<close>

definition dispatchRouterNavigation ::
  "('t, 'a) collaborators \<Rightarrow> ('t, 'a) system \<Rightarrow> ('t, 'a) outcome" where
  "dispatchRouterNavigation env w =
     (case lastRoutesRecognized w of
        None \<Rightarrow> (Some UndefinedLastRoutesRecognized, w)
      | Some rr \<Rightarrow>
          (case routerState w of
             None \<Rightarrow> (None, w)
           | Some rs \<Rightarrow>
               dispatchRouterAction env ROUTER_NAVIGATION
                 (RouterNavigationPayload rs
                    \<lparr>rr_id = rr_id rr, rr_url = rr_url rr,
                     rr_urlAfterRedirects = rr_urlAfterRedirects rr,
                     rr_state = serialize env rs\<rparr>) w))"

definition dispatchRouterCancel ::
  "('t, 'a) collaborators \<Rightarrow> NavigationCancel \<Rightarrow> ('t, 'a) system \<Rightarrow> ('t, 'a) outcome" where
  "dispatchRouterCancel env ev w =
     dispatchRouterAction env ROUTER_CANCEL
       (RouterCancelPayload (routerState w) (storeState w) ev) w"

definition dispatchRouterError ::
  "('t, 'a) collaborators \<Rightarrow> NavigationError \<Rightarrow> ('t, 'a) system \<Rightarrow> ('t, 'a) outcome" where
  "dispatchRouterError env ev w =
     dispatchRouterAction env ROUTER_ERROR
       (RouterErrorPayload (routerState w) (storeState w) ev) w"

text \<open>
  The hook installed by \<^verbatim>\<open>setUpBeforePreactivationHook\<close>. On every normal exit it
  returns \<^verbatim>\<open>of(true)\<close>, which lets the navigation go on; that constant is left out.
\<close>

definition beforePreactivation ::
  "('t, 'a) collaborators \<Rightarrow> 't RouterStateSnapshot \<Rightarrow> ('t, 'a) system \<Rightarrow> ('t, 'a) outcome" where
  "beforePreactivation env snapshot w =
     (let w1 = w\<lparr>routerState := Some (serialize env snapshot)\<rparr> in
      case shouldDispatchRouterNavigation w1 of
        Inl e \<Rightarrow> (Some e, w1)
      | Inr True \<Rightarrow> dispatchRouterNavigation env w1
      | Inr False \<Rightarrow> (None, w1))"

text \<open>The callback given to \<^verbatim>\<open>router.events.subscribe\<close> by \<^verbatim>\<open>setUpStateRollbackEvents\<close>.\<close>

fun routerEventsListener ::
  "('t, 'a) collaborators \<Rightarrow> 't event \<Rightarrow> ('t, 'a) system \<Rightarrow> ('t, 'a) outcome" where
  "routerEventsListener env (EvRoutesRecognized e) w = (None, w\<lparr>lastRoutesRecognized := Some e\<rparr>)"
| "routerEventsListener env (EvNavigationCancel e) w = dispatchRouterCancel env e w"
| "routerEventsListener env (EvNavigationError e) w = dispatchRouterError env e w"
| "routerEventsListener env (EvOther i u) w = (None, w)"

text \<open>
  The constructor. Installing the hook and subscribing to the router change no field.
  Subscribing to the store runs the subscriber at once when the store replays its
  current state to a new subscriber (\<open>replay\<close>), and not at all otherwise.
\<close>

definition constructor :: "string \<Rightarrow> ('t, 'a) StoreState \<Rightarrow> bool \<Rightarrow> ('t, 'a) system" where
  "constructor u s0 replay =
     (let w0 = \<lparr>routerState = None, storeState = None, lastRoutesRecognized = None,
                dispatchTriggeredByRouter = False, navigationTriggeredByDispatch = False,
                router_url = u, store_value = s0, effects = []\<rparr>
      in if replay then snd (storeStateListener s0 w0) else w0)"

subsection \<open>What the collaborators do to the module\<close>

text \<open>
  The router invokes the hook and emits events; the store emits a state that the host
  application produced; the router's URL changes when a navigation ends.
\<close>

datatype ('t, 'a) input =
    BeforePreactivation "'t RouterStateSnapshot"
  | RouterEvent "'t event"
  | StoreEmits "('t, 'a) StoreState"
  | UrlChanged string

fun step :: "('t, 'a) collaborators \<Rightarrow> ('t, 'a) input \<Rightarrow> ('t, 'a) system \<Rightarrow> ('t, 'a) outcome" where
  "step env (BeforePreactivation snapshot) w = beforePreactivation env snapshot w"
| "step env (RouterEvent e) w = routerEventsListener env e w"
| "step env (StoreEmits s) w = storeStateListener s (w\<lparr>store_value := s\<rparr>)"
| "step env (UrlChanged u) w = (None, w\<lparr>router_url := u\<rparr>)"

text \<open>An exception leaves the module through the caller; the fields keep what was assigned.\<close>

definition deliver :: "('t, 'a) collaborators \<Rightarrow> ('t, 'a) input \<Rightarrow> ('t, 'a) system \<Rightarrow> ('t, 'a) system" where
  "deliver env i w =
     (case step env i w of
        (None, w') \<Rightarrow> w'
      | (Some e, w') \<Rightarrow> w'\<lparr>effects := effects w' @ [Threw e]\<rparr>)"

fun run :: "('t, 'a) collaborators \<Rightarrow> ('t, 'a) input list \<Rightarrow> ('t, 'a) system \<Rightarrow> ('t, 'a) system" where
  "run env [] w = w"
| "run env (i # is) w = run env is (deliver env i w)"

text \<open>The actions dispatched, and the navigation requests made, in a log.\<close>

fun dispatched :: "('t, 'a) effect list \<Rightarrow> ('t, 'a) action list" where
  "dispatched [] = []"
| "dispatched (Dispatched a # es) = a # dispatched es"
| "dispatched (e # es) = dispatched es"

fun navigations :: "('t, 'a) effect list \<Rightarrow> string list" where
  "navigations [] = []"
| "navigations (NavigateByUrl u g # es) = u # navigations es"
| "navigations (e # es) = navigations es"

text \<open>
  A store whose root reducer applies \<open>routerReducer\<close> to the reserved key and leaves the
  rest alone, and which never throws.
\<close>

definition router_store :: "('t RouterStateSnapshot \<Rightarrow> 't RouterStateSnapshot) \<Rightarrow> ('t, 'a) collaborators" where
  "router_store ser =
     \<lparr>serialize = ser,
      reducer = (\<lambda>s a. s\<lparr>routerReducer_slot := routerReducer (routerReducer_slot s) a\<rparr>),
      fault = (\<lambda>s a. NoFault)\<rparr>"

text \<open>
  Modelled from the spec: \<^verbatim>\<open>DefaultRouterStateSerializer\<close> is in \<^verbatim>\<open>./serializer\<close>,
  which is not among the sources; the spec gives it as the identity projection of the
  snapshot.
\<close>

definition DefaultRouterStateSerializer :: "'t RouterStateSnapshot \<Rightarrow> 't RouterStateSnapshot" where
  "DefaultRouterStateSerializer snapshot = snapshot"

subsection \<open>Observations and scenarios\<close>

fun payload_event_state :: "('t, 'a) payload \<Rightarrow> 't RouterStateSnapshot option" where
  "payload_event_state (RouterNavigationPayload rs ev) = Some (rr_state ev)"
| "payload_event_state (RouterCancelPayload rs st ev) = None"
| "payload_event_state (RouterErrorPayload rs st ev) = None"

text \<open>An action's type together with the navigation id of the event in its payload.\<close>

definition tag_and_id :: "('t, 'a) action \<Rightarrow> string \<times> int" where
  "tag_and_id a = (type a, payload_event_id (payload a))"

text \<open>
  The URL read by \<^verbatim>\<open>storeState['routerReducer'].state.url\<close>, when the key and its
  \<^verbatim>\<open>state\<close> field are there.
\<close>

definition slot_url :: "('t, 'a) StoreState \<Rightarrow> string option" where
  "slot_url s =
     (case routerReducer_slot s of
        None \<Rightarrow> None
      | Some r \<Rightarrow> (case state r of None \<Rightarrow> None | Some st \<Rightarrow> Some (url st)))"

definition snapshot_at :: "string \<Rightarrow> unit RouterStateSnapshot" where
  "snapshot_at u = \<lparr>url = u, root = ()\<rparr>"

definition recognized :: "int \<Rightarrow> string \<Rightarrow> unit RoutesRecognized" where
  "recognized n u = \<lparr>rr_id = n, rr_url = u, rr_urlAfterRedirects = u, rr_state = snapshot_at u\<rparr>"

definition store_without_slot :: "(unit, unit) StoreState" where
  "store_without_slot = \<lparr>routerReducer_slot = None, app = ()\<rparr>"

definition store_at :: "int \<Rightarrow> string \<Rightarrow> (unit, unit) StoreState" where
  "store_at n u =
     \<lparr>routerReducer_slot = Some \<lparr>state = Some (snapshot_at u), navigationId = n\<rparr>, app = ()\<rparr>"

definition default_store :: "(unit, unit) collaborators" where
  "default_store = router_store DefaultRouterStateSerializer"

text \<open>A store like \<open>default_store\<close> in which a later subscriber throws on every dispatch.\<close>

definition throwing_store :: "(unit, unit) collaborators" where
  "throwing_store = default_store\<lparr>fault := (\<lambda>s a. ThrowsAfterEmission)\<rparr>"

text \<open>A serializer that is not idempotent: it appends to the URL each time it is applied.\<close>

definition marking_serializer :: "unit RouterStateSnapshot \<Rightarrow> unit RouterStateSnapshot" where
  "marking_serializer snapshot = snapshot\<lparr>url := url snapshot @ ''!''\<rparr>"

text \<open>
  The router is at \<^verbatim>\<open>/a\<close>. The host puts \<^verbatim>\<open>/b\<close> under the reserved key, so the module
  asks the router for \<^verbatim>\<open>/b\<close>; the host then resets the store to a state without the
  key, and the router recognizes \<^verbatim>\<open>/b\<close>.
\<close>

definition after_reset :: "(unit, unit) system" where
  "after_reset =
     run default_store
       [StoreEmits (store_at 1 ''/b''), StoreEmits store_without_slot,
        RouterEvent (EvRoutesRecognized (recognized 2 ''/b''))]
       (constructor ''/a'' store_without_slot True)"

text \<open>
  The router recognizes navigation 2 to \<^verbatim>\<open>/c\<close> and runs the hook; a guard then cancels
  the navigation.
\<close>

definition cancelled_by_guard :: "(unit, unit) system" where
  "cancelled_by_guard =
     run default_store
       [RouterEvent (EvRoutesRecognized (recognized 2 ''/c'')),
        BeforePreactivation (snapshot_at ''/c''),
        RouterEvent (EvNavigationCancel \<lparr>nc_id = 2, nc_url = ''/c'', nc_reason = ''guard''\<rparr>)]
       (constructor ''/'' store_without_slot True)"

text \<open>The same with a resolver that throws: navigation 3 ends in \<^verbatim>\<open>NavigationError\<close>.\<close>

definition failed_in_resolver :: "(unit, unit) system" where
  "failed_in_resolver =
     run default_store
       [RouterEvent (EvRoutesRecognized (recognized 3 ''/d'')),
        BeforePreactivation (snapshot_at ''/d''),
        RouterEvent (EvNavigationError \<lparr>ne_id = 3, ne_url = ''/d'', ne_error = ''resolver''\<rparr>)]
       (constructor ''/'' store_without_slot True)"

text \<open>
  Scenario B of the specification: the router is at \<^verbatim>\<open>/a\<close>, the host puts \<^verbatim>\<open>/b\<close>
  under the reserved key, the module asks the router for \<^verbatim>\<open>/b\<close> and the router
  recognizes it.
\<close>

definition store_driven :: "(unit, unit) system" where
  "store_driven =
     run default_store
       [StoreEmits (store_at 1 ''/b''),
        RouterEvent (EvRoutesRecognized (recognized 2 ''/b''))]
       (constructor ''/a'' store_without_slot True)"

text \<open>The store state an action carries for rolling back, if it carries one.\<close>

definition action_storeState :: "('t, 'a) action \<Rightarrow> ('t, 'a) StoreState option" where
  "action_storeState a = payload_storeState (payload a)"

text \<open>The module just after the router recognized navigation 1 to \<^verbatim>\<open>/c\<close>, with a given serializer.\<close>

definition recognized_first ::
  "(unit RouterStateSnapshot \<Rightarrow> unit RouterStateSnapshot) \<Rightarrow> (unit, unit) system" where
  "recognized_first ser =
     run (router_store ser) [RouterEvent (EvRoutesRecognized (recognized 1 ''/c''))]
       (constructor ''/'' store_without_slot True)"

text \<open>The module in the middle of a dispatch of its own, before the store has answered.\<close>

definition in_dispatch :: "(unit, unit) system" where
  "in_dispatch = (constructor ''/a'' store_without_slot True)\<lparr>dispatchTriggeredByRouter := True\<rparr>"

text \<open>The commit the hook dispatches in \<open>recognized_first marking_serializer\<close>.\<close>

definition marked_commit :: "(unit, unit) action" where
  "marked_commit =
     \<lparr>type = ROUTER_NAVIGATION,
      payload = RouterNavigationPayload (snapshot_at ''/c!'')
        \<lparr>rr_id = 1, rr_url = ''/c'', rr_urlAfterRedirects = ''/c'',
         rr_state = snapshot_at ''/c!!''\<rparr>\<rparr>"

section \<open>Properties\<close>

subsection \<open>Auxiliary facts\<close>

lemma dispatched_append: "dispatched (xs @ ys) = dispatched xs @ dispatched ys"
  by (induction xs rule: dispatched.induct) simp_all

lemma navigations_append: "navigations (xs @ ys) = navigations xs @ navigations ys"
  by (induction xs rule: navigations.induct) simp_all

text \<open>The subscriber assigns \<^verbatim>\<open>storeState\<close> before it reads it, so it never throws.\<close>

lemma storeStateListener_returns: "fst (storeStateListener s w) = None"
  by (simp add: storeStateListener_def navigateIfNeeded_def split: option.splits)

lemma storeStateListener_storeState: "storeState (snd (storeStateListener s w)) = Some s"
  by (simp add: storeStateListener_def navigateIfNeeded_def navigateByUrl_def split: option.splits)

lemma storeStateListener_guarded:
  "dispatchTriggeredByRouter w \<Longrightarrow> storeStateListener s w = (None, w\<lparr>storeState := Some s\<rparr>)"
  by (simp add: storeStateListener_def navigateIfNeeded_def split: option.splits)

text \<open>A dispatch made while \<^verbatim>\<open>dispatchTriggeredByRouter\<close> is set, case by case.\<close>

lemma store_dispatch_guarded:
  "dispatchTriggeredByRouter w \<Longrightarrow>
   store_dispatch env a w =
     (case fault env (store_value w) a of
        ThrowsBeforeEmission \<Rightarrow> (Some StoreThrows, w\<lparr>effects := effects w @ [Dispatched a]\<rparr>)
      | NoFault \<Rightarrow>
          (None, w\<lparr>effects := effects w @ [Dispatched a],
                   store_value := reducer env (store_value w) a,
                   storeState := Some (reducer env (store_value w) a)\<rparr>)
      | ThrowsAfterEmission \<Rightarrow>
          (Some StoreThrows, w\<lparr>effects := effects w @ [Dispatched a],
                   store_value := reducer env (store_value w) a,
                   storeState := Some (reducer env (store_value w) a)\<rparr>))"
  by (simp add: store_dispatch_def storeStateListener_guarded Let_def split: fault.splits)

lemma dispatchRouterAction_effects:
  "effects (snd (dispatchRouterAction env ty p w)) =
     effects w @ [Dispatched \<lparr>type = ty, payload = p\<rparr>]"
  by (simp add: dispatchRouterAction_def store_dispatch_guarded split: fault.splits)

lemma dispatchRouterAction_storeState:
  "storeState (snd (dispatchRouterAction env ty p w)) =
     (if fault env (store_value w) \<lparr>type = ty, payload = p\<rparr> = ThrowsBeforeEmission
      then storeState w
      else Some (reducer env (store_value w) \<lparr>type = ty, payload = p\<rparr>))"
  by (simp add: dispatchRouterAction_def store_dispatch_guarded split: fault.splits)

lemma dispatchRouterAction_outcome:
  "fst (dispatchRouterAction env ty p w) =
     (if fault env (store_value w) \<lparr>type = ty, payload = p\<rparr> = NoFault
      then None else Some StoreThrows)"
  by (simp add: dispatchRouterAction_def store_dispatch_guarded split: fault.splits)

text \<open>What one run of the hook adds to the log.\<close>

lemma beforePreactivation_effects:
  "effects (snd (beforePreactivation env snapshot w)) =
     effects w @
     (case lastRoutesRecognized w of
        None \<Rightarrow> []
      | Some rr \<Rightarrow>
          if shouldDispatchRouterNavigation w = Inr True
          then [Dispatched \<lparr>type = ROUTER_NAVIGATION,
                  payload = RouterNavigationPayload (serialize env snapshot)
                    \<lparr>rr_id = rr_id rr, rr_url = rr_url rr,
                     rr_urlAfterRedirects = rr_urlAfterRedirects rr,
                     rr_state = serialize env (serialize env snapshot)\<rparr>\<rparr>]
          else [])"
  by (simp add: beforePreactivation_def shouldDispatchRouterNavigation_def Let_def
      dispatchRouterNavigation_def dispatchRouterAction_effects
      split: option.splits bool.splits)

lemma dispatchRouterCancel_effects:
  "effects (snd (dispatchRouterCancel env ev w)) =
     effects w @ [Dispatched \<lparr>type = ROUTER_CANCEL,
                    payload = RouterCancelPayload (routerState w) (storeState w) ev\<rparr>]"
  by (simp add: dispatchRouterCancel_def dispatchRouterAction_effects)

lemma dispatchRouterError_effects:
  "effects (snd (dispatchRouterError env ev w)) =
     effects w @ [Dispatched \<lparr>type = ROUTER_ERROR,
                    payload = RouterErrorPayload (routerState w) (storeState w) ev\<rparr>]"
  by (simp add: dispatchRouterError_def dispatchRouterAction_effects)

text \<open>An exception adds no dispatch to the log.\<close>

lemma dispatched_deliver:
  "dispatched (effects (deliver env i w)) = dispatched (effects (snd (step env i w)))"
  by (simp add: deliver_def dispatched_append split: prod.splits option.splits)

lemma deliver_recognized:
  "deliver env (RouterEvent (EvRoutesRecognized rr)) w = w\<lparr>lastRoutesRecognized := Some rr\<rparr>"
  by (simp add: deliver_def)

lemma dispatchRouterAction_navigations:
  "navigations (effects (snd (dispatchRouterAction env ty p w))) = navigations (effects w)"
  by (simp add: dispatchRouterAction_effects navigations_append)

text \<open>Once a store state has been observed, one stays observed.\<close>

lemma beforePreactivation_storeState:
  "storeState (snd (beforePreactivation env snapshot w)) = None \<longleftrightarrow> storeState w = None"
  by (simp add: beforePreactivation_def shouldDispatchRouterNavigation_def Let_def
      dispatchRouterNavigation_def dispatchRouterAction_storeState
      split: option.splits bool.splits)

lemma routerEventsListener_storeState:
  "storeState w \<noteq> None \<Longrightarrow> storeState (snd (routerEventsListener env e w)) \<noteq> None"
  by (cases e) (simp_all add: dispatchRouterCancel_def dispatchRouterError_def
      dispatchRouterAction_storeState)

lemma deliver_storeState:
  "storeState (deliver env i w) = storeState (snd (step env i w))"
  by (simp add: deliver_def split: prod.splits option.splits)

lemma deliver_keeps_storeState:
  "storeState w \<noteq> None \<Longrightarrow> storeState (deliver env i w) \<noteq> None"
  by (cases i) (simp_all add: deliver_storeState beforePreactivation_storeState
      routerEventsListener_storeState storeStateListener_storeState)

lemma run_keeps_storeState:
  "storeState w \<noteq> None \<Longrightarrow> storeState (run env is w) \<noteq> None"
proof (induction "is" arbitrary: w)
  case Nil
  then show ?case by simp
next
  case (Cons i "is")
  from Cons.prems have "storeState (deliver env i w) \<noteq> None"
    by (rule deliver_keeps_storeState)
  then have "storeState (run env is (deliver env i w)) \<noteq> None"
    by (rule Cons.IH)
  then show ?case by simp
qed

text \<open>The hook throws on \<^verbatim>\<open>storeState\<close> exactly when no store state was observed.\<close>

lemma beforePreactivation_throws:
  "fst (beforePreactivation env snapshot w) = Some UndefinedStoreState \<longleftrightarrow> storeState w = None"
  by (simp add: beforePreactivation_def shouldDispatchRouterNavigation_def Let_def
      dispatchRouterNavigation_def dispatchRouterAction_outcome
      split: option.splits bool.splits)

lemmas scenario_defs =
  after_reset_def store_driven_def cancelled_by_guard_def failed_in_resolver_def
  default_store_def throwing_store_def router_store_def DefaultRouterStateSerializer_def
  constructor_def deliver_def storeStateListener_def navigateIfNeeded_def navigateByUrl_def
  store_at_def store_without_slot_def snapshot_at_def recognized_def
  beforePreactivation_def shouldDispatchRouterNavigation_def dispatchRouterNavigation_def
  dispatchRouterAction_def store_dispatch_def dispatchRouterCancel_def dispatchRouterError_def
  Let_def routerReducer_def ROUTER_NAVIGATION_def ROUTER_CANCEL_def ROUTER_ERROR_def
  tag_and_id_def

subsection \<open>When the hook dispatches\<close>




subsection \<open>The action types\<close>

text \<open>
  Claim C2 says that the three actions carry the types \<^verbatim>\<open>"ROUTER_NAVIGATION"\<close>,
  \<^verbatim>\<open>"ROUTER_CANCEL"\<close> and \<^verbatim>\<open>"ROUTER_ERROR"\<close>. The first two constants hold their own
  names; the constant \<^verbatim>\<open>ROUTER_ERROR\<close> holds \<^verbatim>\<open>'ROUTE_ERROR'\<close>, and that is the type
  of the action dispatched when navigation 3 fails in a resolver.
\<close>

theorem error_action_type_is_ROUTE_ERROR:
  "ROUTER_NAVIGATION = ''ROUTER_NAVIGATION'' \<and> ROUTER_CANCEL = ''ROUTER_CANCEL'' \<and>
   ROUTER_ERROR = ''ROUTE_ERROR'' \<and> ROUTER_ERROR \<noteq> ''ROUTER_ERROR'' \<and>
   map tag_and_id (dispatched (effects failed_in_resolver)) =
     [(''ROUTER_NAVIGATION'', 3), (''ROUTE_ERROR'', 3)]"
  by (simp add: scenario_defs)

subsection \<open>The actions of one navigation\<close>

text \<open>
  Claim C3, as the code has it. From any state, a navigation that is recognized,
  pre-activated and then cancelled or failed has at most one \<^verbatim>\<open>ROUTER_NAVIGATION\<close>
  action dispatched for it, by the hook and exactly when \<open>shouldDispatchRouterNavigation\<close>
  says so, followed by exactly one \<^verbatim>\<open>ROUTER_CANCEL\<close> (or \<^verbatim>\<open>ROUTER_ERROR\<close>) action
  carrying the id of the terminal event. The commit is dispatched before the guards
  run, so a cancellation does not take it back.
\<close>

theorem lifecycle_dispatches:
  "map tag_and_id (dispatched (effects (run env
      [RouterEvent (EvRoutesRecognized rr), BeforePreactivation snapshot,
       RouterEvent (EvNavigationCancel nc)] w))) =
     map tag_and_id (dispatched (effects w)) @
     (if shouldDispatchRouterNavigation w = Inr True then [(ROUTER_NAVIGATION, rr_id rr)] else []) @
     [(ROUTER_CANCEL, nc_id nc)] \<and>
   map tag_and_id (dispatched (effects (run env
      [RouterEvent (EvRoutesRecognized rr), BeforePreactivation snapshot,
       RouterEvent (EvNavigationError ne)] w))) =
     map tag_and_id (dispatched (effects w)) @
     (if shouldDispatchRouterNavigation w = Inr True then [(ROUTER_NAVIGATION, rr_id rr)] else []) @
     [(ROUTER_ERROR, ne_id ne)]"
proof -
  let ?w1 = "w\<lparr>lastRoutesRecognized := Some rr\<rparr>"
  let ?w2 = "deliver env (BeforePreactivation snapshot) ?w1"
  have s: "shouldDispatchRouterNavigation ?w1 = shouldDispatchRouterNavigation w"
    by (simp add: shouldDispatchRouterNavigation_def split: option.splits)
  have h: "map tag_and_id (dispatched (effects ?w2)) =
      map tag_and_id (dispatched (effects w)) @
      (if shouldDispatchRouterNavigation w = Inr True then [(ROUTER_NAVIGATION, rr_id rr)] else [])"
    by (simp add: dispatched_deliver beforePreactivation_effects dispatched_append s tag_and_id_def)
  have c: "map tag_and_id (dispatched (effects (deliver env (RouterEvent (EvNavigationCancel nc)) ?w2))) =
      map tag_and_id (dispatched (effects ?w2)) @ [(ROUTER_CANCEL, nc_id nc)]"
    by (simp add: dispatched_deliver dispatchRouterCancel_effects dispatched_append tag_and_id_def)
  have e: "map tag_and_id (dispatched (effects (deliver env (RouterEvent (EvNavigationError ne)) ?w2))) =
      map tag_and_id (dispatched (effects ?w2)) @ [(ROUTER_ERROR, ne_id ne)]"
    by (simp add: dispatched_deliver dispatchRouterError_effects dispatched_append tag_and_id_def)
  show ?thesis
    using h c e by (simp add: deliver_recognized)
qed

text \<open>
  In scenario B the hook skips the commit: a cancellation of that navigation is the only
  action dispatched.
\<close>

theorem lifecycle_dispatches_witness:
  "map tag_and_id (dispatched (effects (run default_store
      [RouterEvent (EvRoutesRecognized (recognized 2 ''/b'')), BeforePreactivation (snapshot_at ''/b''),
       RouterEvent (EvNavigationCancel \<lparr>nc_id = 2, nc_url = ''/b'', nc_reason = ''guard''\<rparr>)]
      store_driven))) = [(''ROUTER_CANCEL'', 2)]"
proof -
  have d: "dispatched (effects store_driven) = []"
    by (simp add: scenario_defs)
  have n: "shouldDispatchRouterNavigation store_driven = Inr False"
    by (simp add: scenario_defs)
  show ?thesis
    using lifecycle_dispatches [of default_store "recognized 2 ''/b''" "snapshot_at ''/b''"
        "\<lparr>nc_id = 2, nc_url = ''/b'', nc_reason = ''guard''\<rparr>" store_driven] d n
    by (simp add: ROUTER_CANCEL_def)
qed

text \<open>
  Against C3 as stated: in scenario C both a \<^verbatim>\<open>ROUTER_NAVIGATION\<close> and a
  \<^verbatim>\<open>ROUTER_CANCEL\<close> action are dispatched for navigation 2.
\<close>

theorem commit_and_cancel_for_one_id:
  "map tag_and_id (dispatched (effects cancelled_by_guard)) =
     [(''ROUTER_NAVIGATION'', 2), (''ROUTER_CANCEL'', 2)]"
  by (simp add: scenario_defs)

subsection \<open>The store state of a rollback action\<close>

text \<open>
  Claim C4 says that \<^verbatim>\<open>ROUTER_CANCEL\<close> and \<^verbatim>\<open>ROUTER_ERROR\<close> carry the store state from
  before the navigation attempt. In scenario C the module had observed the state without
  the reserved key before the attempt; the commit of navigation 2 put \<^verbatim>\<open>/c\<close> under the
  key, the store handed that state to the subscriber, and this later state is what the
  \<^verbatim>\<open>ROUTER_CANCEL\<close> action carries.
\<close>

theorem cancel_carries_state_after_commit:
  "storeState (constructor ''/'' store_without_slot True) = Some store_without_slot \<and>
   map action_storeState (dispatched (effects cancelled_by_guard)) =
     [None, Some (store_at 2 ''/c'')] \<and>
   store_at 2 ''/c'' \<noteq> store_without_slot"
  by (simp add: scenario_defs action_storeState_def)

subsection \<open>The guards around a dispatch\<close>

text \<open>
  Claim C5. However a call of \<open>dispatchRouterAction\<close> ends, with the store's dispatch
  returning or throwing, both \<^verbatim>\<open>dispatchTriggeredByRouter\<close> and
  \<^verbatim>\<open>navigationTriggeredByDispatch\<close> are false afterwards.
\<close>

theorem dispatchRouterAction_clears_guards:
  assumes "dispatchRouterAction env ty p w = (r, w')"
  shows "\<not> dispatchTriggeredByRouter w' \<and> \<not> navigationTriggeredByDispatch w'"
  using assms by (auto simp add: dispatchRouterAction_def split: prod.splits)

text \<open>
  A dispatch that throws, from a state in which \<^verbatim>\<open>navigationTriggeredByDispatch\<close> is set.
\<close>

theorem dispatchRouterAction_clears_guards_witness:
  "navigationTriggeredByDispatch store_driven \<and>
   fst (dispatchRouterAction throwing_store ROUTER_CANCEL
          (RouterCancelPayload None None \<lparr>nc_id = 2, nc_url = ''/b'', nc_reason = ''guard''\<rparr>)
          store_driven) = Some StoreThrows \<and>
   \<not> dispatchTriggeredByRouter (snd (dispatchRouterAction throwing_store ROUTER_CANCEL
          (RouterCancelPayload None None \<lparr>nc_id = 2, nc_url = ''/b'', nc_reason = ''guard''\<rparr>)
          store_driven)) \<and>
   \<not> navigationTriggeredByDispatch (snd (dispatchRouterAction throwing_store ROUTER_CANCEL
          (RouterCancelPayload None None \<lparr>nc_id = 2, nc_url = ''/b'', nc_reason = ''guard''\<rparr>)
          store_driven))"
proof -
  have g: "navigationTriggeredByDispatch store_driven"
    by (simp add: scenario_defs)
  have t: "fst (dispatchRouterAction throwing_store ROUTER_CANCEL
          (RouterCancelPayload None None \<lparr>nc_id = 2, nc_url = ''/b'', nc_reason = ''guard''\<rparr>)
          store_driven) = Some StoreThrows"
    by (simp add: dispatchRouterAction_outcome throwing_store_def)
  show ?thesis
    using dispatchRouterAction_clears_guards [OF prod.collapse [symmetric]] g t
    by blast
qed

subsection \<open>No navigation out of the module's own dispatch\<close>

text \<open>
  Claim C6. A store state handed to the subscriber while \<^verbatim>\<open>dispatchTriggeredByRouter\<close>
  is set adds no \<^verbatim>\<open>navigateByUrl\<close> call to the log; and since the guard is set for the
  whole of the store's dispatch, no call of \<open>dispatchRouterAction\<close> adds one, whatever
  the store emits during it.
\<close>

theorem own_dispatch_never_navigates:
  assumes "dispatchTriggeredByRouter w"
  shows "navigations (effects (snd (storeStateListener s w))) = navigations (effects w) \<and>
         navigations (effects (snd (dispatchRouterAction env ty p w'))) = navigations (effects w')"
  using assms by (simp add: storeStateListener_guarded dispatchRouterAction_navigations)

text \<open>
  The router is at \<^verbatim>\<open>/a\<close> and the emitted state has \<^verbatim>\<open>/b\<close> under the key: without the
  guard the subscriber would navigate.
\<close>

theorem own_dispatch_never_navigates_witness:
  "dispatchTriggeredByRouter in_dispatch \<and>
   slot_url (store_at 1 ''/b'') = Some ''/b'' \<and> router_url in_dispatch = ''/a'' \<and>
   navigations (effects (snd (storeStateListener (store_at 1 ''/b'') in_dispatch))) = [] \<and>
   navigations (effects (snd (dispatchRouterAction default_store ROUTER_NAVIGATION
      (RouterNavigationPayload (snapshot_at ''/b'') (recognized 1 ''/b''))
      (constructor ''/a'' store_without_slot True)))) = []"
proof -
  have g: "dispatchTriggeredByRouter in_dispatch"
    by (simp add: in_dispatch_def)
  have n: "navigations (effects in_dispatch) = []"
    by (simp add: in_dispatch_def scenario_defs)
  have n': "navigations (effects (constructor ''/a'' store_without_slot True :: (unit, unit) system)) = []"
    by (simp add: scenario_defs)
  have u: "slot_url (store_at 1 ''/b'') = Some ''/b''"
    by (simp add: slot_url_def store_at_def snapshot_at_def)
  have r: "router_url in_dispatch = ''/a''"
    by (simp add: in_dispatch_def scenario_defs)
  show ?thesis
    using own_dispatch_never_navigates [OF g, of "store_at 1 ''/b''" default_store ROUTER_NAVIGATION
        "RouterNavigationPayload (snapshot_at ''/b'') (recognized 1 ''/b'')"
        "constructor ''/a'' store_without_slot True"] g n n' u r
    by simp
qed

subsection \<open>The first navigation\<close>

text \<open>
  Claim C7, as the code has it. When the observed store state has nothing under
  \<^verbatim>\<open>'routerReducer'\<close> and a \<^verbatim>\<open>RoutesRecognized\<close> event has been cached, the hook
  dispatches one \<^verbatim>\<open>ROUTER_NAVIGATION\<close> action, built from that event, whatever the
  two guards are.
\<close>

theorem first_navigation_dispatched:
  assumes "storeState w = Some s" and "routerReducer_slot s = None"
    and "lastRoutesRecognized w = Some rr"
  shows "dispatched (effects (snd (beforePreactivation env snapshot w))) =
     dispatched (effects w) @
     [\<lparr>type = ROUTER_NAVIGATION,
       payload = RouterNavigationPayload (serialize env snapshot)
         \<lparr>rr_id = rr_id rr, rr_url = rr_url rr,
          rr_urlAfterRedirects = rr_urlAfterRedirects rr,
          rr_state = serialize env (serialize env snapshot)\<rparr>\<rparr>]"
  using assms
  by (simp add: beforePreactivation_effects shouldDispatchRouterNavigation_def dispatched_append)

text \<open>After the host's reset the key is missing and \<^verbatim>\<open>navigationTriggeredByDispatch\<close> is set.\<close>

theorem first_navigation_dispatched_witness:
  "storeState after_reset = Some store_without_slot \<and>
   routerReducer_slot store_without_slot = None \<and>
   lastRoutesRecognized after_reset = Some (recognized 2 ''/b'') \<and>
   navigationTriggeredByDispatch after_reset \<and>
   dispatched (effects (snd (beforePreactivation default_store (snapshot_at ''/b'') after_reset))) =
     [\<lparr>type = ''ROUTER_NAVIGATION'',
       payload = RouterNavigationPayload (snapshot_at ''/b'') (recognized 2 ''/b'')\<rparr>]"
proof -
  have s: "storeState after_reset = Some store_without_slot"
    by (simp add: scenario_defs)
  have k: "routerReducer_slot store_without_slot = None"
    by (simp add: store_without_slot_def)
  have r: "lastRoutesRecognized after_reset = Some (recognized 2 ''/b'')"
    by (simp add: scenario_defs)
  have g: "navigationTriggeredByDispatch after_reset"
    by (simp add: scenario_defs)
  have d: "dispatched (effects after_reset) = []"
    by (simp add: scenario_defs)
  show ?thesis
    using first_navigation_dispatched [OF s k r, of default_store "snapshot_at ''/b''"] s k r g d
    by (simp add: default_store_def router_store_def DefaultRouterStateSerializer_def
        recognized_def snapshot_at_def ROUTER_NAVIGATION_def)
qed

text \<open>
  Against C7 as stated: a store state without the key has been observed, no
  \<^verbatim>\<open>RoutesRecognized\<close> event has been seen, and the first run of the hook throws on
  \<^verbatim>\<open>this.lastRoutesRecognized.id\<close> while it builds the payload, so nothing is
  dispatched.
\<close>

theorem first_hook_without_recognized_event:
  "storeState (constructor ''/'' store_without_slot True) = Some store_without_slot \<and>
   routerReducer_slot store_without_slot = None \<and>
   fst (beforePreactivation default_store (snapshot_at ''/a'')
          (constructor ''/'' store_without_slot True)) = Some UndefinedLastRoutesRecognized \<and>
   dispatched (effects (snd (beforePreactivation default_store (snapshot_at ''/a'')
          (constructor ''/'' store_without_slot True)))) = []"
  by (simp add: scenario_defs)

subsection \<open>When the subscriber navigates\<close>

text \<open>
  Claim C8. On every store state the subscriber records the state and then asks the
  router to navigate if and only if the reserved key and its \<^verbatim>\<open>state\<close> field are there,
  \<^verbatim>\<open>dispatchTriggeredByRouter\<close> is clear and the router's URL differs from the URL
  under the key. The request is for that URL, and the router receives it with
  \<^verbatim>\<open>navigationTriggeredByDispatch\<close> already set. Otherwise nothing but the recorded
  state changes.
\<close>

theorem listener_navigates_iff:
  "storeStateListener s w =
     (None,
      case slot_url s of
        None \<Rightarrow> w\<lparr>storeState := Some s\<rparr>
      | Some u \<Rightarrow>
          if \<not> dispatchTriggeredByRouter w \<and> router_url w \<noteq> u
          then w\<lparr>storeState := Some s, navigationTriggeredByDispatch := True,
                 effects := effects w @ [NavigateByUrl u True]\<rparr>
          else w\<lparr>storeState := Some s\<rparr>)"
  by (simp add: storeStateListener_def navigateIfNeeded_def navigateByUrl_def slot_url_def
      split: option.splits)

text \<open>The router is at \<^verbatim>\<open>/a\<close> and the store puts \<^verbatim>\<open>/b\<close> under the key.\<close>

theorem listener_navigates_iff_witness:
  "storeStateListener (store_at 1 ''/b'') (constructor ''/a'' store_without_slot True) =
     (None, (constructor ''/a'' store_without_slot True)
        \<lparr>storeState := Some (store_at 1 ''/b''), navigationTriggeredByDispatch := True,
         effects := [NavigateByUrl ''/b'' True]\<rparr>)"
proof -
  have u: "slot_url (store_at 1 ''/b'') = Some ''/b''"
    by (simp add: slot_url_def store_at_def snapshot_at_def)
  have c: "\<not> dispatchTriggeredByRouter (constructor ''/a'' store_without_slot True :: (unit, unit) system) \<and>
           router_url (constructor ''/a'' store_without_slot True :: (unit, unit) system) = ''/a'' \<and>
           effects (constructor ''/a'' store_without_slot True :: (unit, unit) system) = []"
    by (simp add: scenario_defs)
  show ?thesis
    using listener_navigates_iff [of "store_at 1 ''/b''" "constructor ''/a'' store_without_slot True"] u c
    by simp
qed

subsection \<open>The two serialized fields of a commit\<close>

text \<open>
  Claim C9. Every action the hook dispatches is a \<^verbatim>\<open>ROUTER_NAVIGATION\<close> whose
  \<^verbatim>\<open>payload.routerState\<close> is the serializer applied once to the router's snapshot and
  whose \<^verbatim>\<open>payload.event.state\<close> is the serializer applied twice. The two fields are
  equal exactly when the serializer maps its own output for that snapshot to itself, as
  the default serializer does.
\<close>

theorem commit_payload_serialized_twice:
  assumes "effects (snd (beforePreactivation env snapshot w)) = effects w @ es"
    and "Dispatched a \<in> set es"
  shows "type a = ROUTER_NAVIGATION \<and>
     payload_routerState (payload a) = Some (serialize env snapshot) \<and>
     payload_event_state (payload a) = Some (serialize env (serialize env snapshot)) \<and>
     (payload_routerState (payload a) = payload_event_state (payload a) \<longleftrightarrow>
        serialize env (serialize env snapshot) = serialize env snapshot) \<and>
     DefaultRouterStateSerializer (DefaultRouterStateSerializer snapshot) =
        DefaultRouterStateSerializer snapshot"
proof -
  from assms(1) have "es =
     (case lastRoutesRecognized w of
        None \<Rightarrow> []
      | Some rr \<Rightarrow>
          if shouldDispatchRouterNavigation w = Inr True
          then [Dispatched \<lparr>type = ROUTER_NAVIGATION,
                  payload = RouterNavigationPayload (serialize env snapshot)
                    \<lparr>rr_id = rr_id rr, rr_url = rr_url rr,
                     rr_urlAfterRedirects = rr_urlAfterRedirects rr,
                     rr_state = serialize env (serialize env snapshot)\<rparr>\<rparr>]
          else [])"
    by (simp add: beforePreactivation_effects)
  with assms(2) show ?thesis
    by (auto simp add: DefaultRouterStateSerializer_def split: option.splits if_splits)
qed

text \<open>With a serializer that marks the URL, the two fields of the commit differ.\<close>

theorem commit_payload_serialized_twice_witness:
  "effects (snd (beforePreactivation (router_store marking_serializer) (snapshot_at ''/c'')
      (recognized_first marking_serializer))) =
     effects (recognized_first marking_serializer) @ [Dispatched marked_commit] \<and>
   payload_routerState (payload marked_commit) = Some (snapshot_at ''/c!'') \<and>
   payload_event_state (payload marked_commit) = Some (snapshot_at ''/c!!'') \<and>
   payload_routerState (payload marked_commit) \<noteq> payload_event_state (payload marked_commit)"
proof -
  have e: "effects (snd (beforePreactivation (router_store marking_serializer) (snapshot_at ''/c'')
      (recognized_first marking_serializer))) =
     effects (recognized_first marking_serializer) @ [Dispatched marked_commit]"
    by (simp add: recognized_first_def marked_commit_def marking_serializer_def scenario_defs)
  have m: "Dispatched marked_commit \<in> set [Dispatched marked_commit]"
    by simp
  have p: "payload_routerState (payload marked_commit) = Some (snapshot_at ''/c!'')"
    by (simp add: marked_commit_def)
  have q: "payload_event_state (payload marked_commit) = Some (snapshot_at ''/c!!'')"
    by (simp add: marked_commit_def)
  have d: "payload_routerState (payload marked_commit) \<noteq> payload_event_state (payload marked_commit)"
    by (simp add: marked_commit_def snapshot_at_def)
  show ?thesis
    using commit_payload_serialized_twice [OF e m] e p q d
    by blast
qed

subsection \<open>The hook before any store state\<close>

text \<open>
  Claim C10. \<open>shouldDispatchRouterNavigation\<close> reads a property of \<^verbatim>\<open>storeState\<close>
  unchecked: it throws, and the hook with it, exactly when no store state has been
  observed. That is the case for a module built over a store that emits nothing on
  subscription. It is never the case after a store that replays its state on
  subscription, nor after any store emission, whatever happens in between.
\<close>

theorem hook_needs_observed_store_state:
  "(shouldDispatchRouterNavigation w = Inl UndefinedStoreState \<longleftrightarrow> storeState w = None) \<and>
   (fst (beforePreactivation env snapshot w) = Some UndefinedStoreState \<longleftrightarrow> storeState w = None) \<and>
   storeState (constructor u s0 False) = None \<and>
   storeState (run env is (constructor u s0 True)) \<noteq> None \<and>
   storeState (run env js (deliver env (StoreEmits s) w)) \<noteq> None"
proof -
  have a: "shouldDispatchRouterNavigation w = Inl UndefinedStoreState \<longleftrightarrow> storeState w = None"
    by (simp add: shouldDispatchRouterNavigation_def split: option.splits)
  have c: "storeState (constructor u s0 False :: ('a, 'b) system) = None"
    by (simp add: constructor_def)
  have d: "storeState (constructor u s0 True) \<noteq> None"
    by (simp add: constructor_def storeStateListener_storeState)
  have e: "storeState (deliver env (StoreEmits s) w) \<noteq> None"
    by (simp add: deliver_storeState storeStateListener_storeState)
  show ?thesis
    using a c run_keeps_storeState [OF d] run_keeps_storeState [OF e]
    by (simp add: beforePreactivation_throws)
qed

text \<open>
  The same first navigation over a store that does not replay its state, where the hook
  throws, and over one that does, where it returns.
\<close>

theorem hook_needs_observed_store_state_witness:
  "fst (beforePreactivation default_store (snapshot_at ''/a'')
      (run default_store [RouterEvent (EvRoutesRecognized (recognized 1 ''/a''))]
         (constructor ''/'' store_without_slot False))) = Some UndefinedStoreState \<and>
   fst (beforePreactivation default_store (snapshot_at ''/a'')
      (run default_store [RouterEvent (EvRoutesRecognized (recognized 1 ''/a''))]
         (constructor ''/'' store_without_slot True))) = None"
proof -
  have n: "storeState (run default_store [RouterEvent (EvRoutesRecognized (recognized 1 ''/a''))]
         (constructor ''/'' store_without_slot False)) = None"
    by (simp add: scenario_defs)
  have r: "fst (beforePreactivation default_store (snapshot_at ''/a'')
      (run default_store [RouterEvent (EvRoutesRecognized (recognized 1 ''/a''))]
         (constructor ''/'' store_without_slot True))) = None"
    by (simp add: scenario_defs)
  show ?thesis
    using hook_needs_observed_store_state [of
        "run default_store [RouterEvent (EvRoutesRecognized (recognized 1 ''/a''))]
           (constructor ''/'' store_without_slot False)" default_store "snapshot_at ''/a''"] n r
    by simp
qed

end
